theory Spec2Isabelle
  imports Complex_Main "HOL-Library.Word" "HOL-Library.Multiset"
begin

section \<open>JavaScript strings and numbers\<close>

text \<open>
  A JavaScript string is a sequence of UTF-16 code units and \<open>.length\<close> counts code
  units, so a string is a list of 16-bit words. \<open>lit\<close> embeds an ASCII literal of the
  source. Numbers that the code only uses as integers (lengths, counts, calendar fields)
  are \<open>nat\<close> or \<open>int\<close>; \<open>NaN\<close>, infinities and fractions are outside the model.
\<close>

type_synonym jsstring = "16 word list"

definition lit :: "string \<Rightarrow> jsstring" where
  "lit s = map (\<lambda>c. of_nat (of_char c)) s"

text \<open>\<open>String(n)\<close> for a non-negative integer: its decimal digits.\<close>

function showNat :: "nat \<Rightarrow> jsstring" where
  "showNat n =
     (if n < 10 then [of_nat (48 + n)]
      else showNat (n div 10) @ [of_nat (48 + n mod 10)])"
  by pat_completeness auto
termination
  by (relation "measure id") auto

declare showNat.simps [simp del]

definition showInt :: "int \<Rightarrow> jsstring" where
  "showInt i = (if i < 0 then lit ''-'' @ showNat (nat (- i)) else showNat (nat i))"

text \<open>\<open>s.padStart(n, '0')\<close>: zeros in front until the length is \<open>n\<close>.\<close>

definition padStart0 :: "nat \<Rightarrow> jsstring \<Rightarrow> jsstring" where
  "padStart0 n s = replicate (n - length s) 0x30 @ s"

text \<open>
  \<open>s.trim()\<close> removes leading and trailing white space and line terminators
  (ECMAScript \<open>WhiteSpace\<close> and \<open>LineTerminator\<close>).
\<close>

definition isWhiteSpace :: "16 word \<Rightarrow> bool" where
  "isWhiteSpace c \<longleftrightarrow>
     c \<in> set [0x0009, 0x000A, 0x000B, 0x000C, 0x000D, 0x0020, 0x00A0, 0x1680,
              0x2028, 0x2029, 0x202F, 0x205F, 0x3000, 0xFEFF]
     \<or> (0x2000 \<le> c \<and> c \<le> 0x200A)"

definition trim :: "jsstring \<Rightarrow> jsstring" where
  "trim s = rev (dropWhile isWhiteSpace (rev (dropWhile isWhiteSpace s)))"

text \<open>\<open>s.substring(0, e)\<close> for an integer \<open>e\<close>: a negative end counts as 0, an end
  beyond the length as the length.\<close>

definition substring0 :: "jsstring \<Rightarrow> int \<Rightarrow> jsstring" where
  "substring0 s e = take (nat e) s"

text \<open>An exception of the source: every one is an \<open>Error\<close> carrying a message.\<close>

datatype error = Error jsstring

fun message_of :: "error \<Rightarrow> jsstring" where
  "message_of (Error m) = m"

section \<open>Data model (types/canvas.types.ts and the tables read by the services)\<close>

record ParsedTodoItem =
  type :: jsstring
  assignmentName :: jsstring
  dueAt :: jsstring
  dueDate :: jsstring
  courseId :: jsstring

text \<open>A row of the course table: the label mappings stored by the course sync.\<close>

record course =
  course_childId :: jsstring
  canvasCourseId :: jsstring
  courseName :: jsstring
  isActive :: bool

text \<open>
  A \<open>Date\<close> as \<open>formatDateYYYYMMDD\<close> reads it: \<open>getFullYear()\<close>, \<open>getMonth()\<close>
  (January is 0) and \<open>getDate()\<close>, all in the process's local time zone.
\<close>

record jsdate =
  getFullYear :: int
  getMonth :: nat
  getDate :: nat

section \<open>FormattingService (services/formatting.service.ts)\<close>

definition formatDateYYYYMMDD :: "jsdate \<Rightarrow> jsstring" where
  "formatDateYYYYMMDD date =
     (let year = getFullYear date;
          month = padStart0 2 (showNat (getMonth date + 1));
          day = padStart0 2 (showNat (getDate date))
      in showInt year @ lit ''-'' @ month @ lit ''-'' @ day)"

text \<open>
  \<open>getCourseMap\<close> queries the course table for the child's active rows and builds an
  object from course id to course name; a later row overwrites an earlier one with the
  same id. The query can fail, so the table is read as \<open>error + course list\<close>.
  Keys that name a member of \<open>Object.prototype\<close> are outside the model: the ids the
  code stores are decimal renderings of numbers.
\<close>

definition getCourseMap :: "error + course list \<Rightarrow> jsstring \<Rightarrow> error + (jsstring \<rightharpoonup> jsstring)" where
  "getCourseMap courseTable childId =
     (case courseTable of
        Inl e \<Rightarrow> Inl e
      | Inr rows \<Rightarrow>
          Inr (foldl (\<lambda>courseMap c. courseMap(canvasCourseId c \<mapsto> courseName c)) Map.empty
                 (filter (\<lambda>c. course_childId c = childId \<and> isActive c) rows)))"

text \<open>\<open>courseMap[id] || `Course ${id}`\<close>: a missing or empty name gives the fallback.\<close>

definition resolveCourseName :: "(jsstring \<rightharpoonup> jsstring) \<Rightarrow> jsstring \<Rightarrow> jsstring" where
  "resolveCourseName courseMap cid =
     (case courseMap cid of
        Some n \<Rightarrow> if n \<noteq> [] then n else lit ''Course '' @ cid
      | None \<Rightarrow> lit ''Course '' @ cid)"

definition formatTodo :: "(jsstring \<rightharpoonup> jsstring) \<Rightarrow> jsstring \<Rightarrow> ParsedTodoItem \<Rightarrow> jsstring" where
  "formatTodo courseMap message todo =
     (let courseName = resolveCourseName courseMap (courseId todo)
      in message
         @ (lit ''Course: '' @ courseName @ lit ''\<newline>'')
         @ (lit ''Assignment: '' @ assignmentName todo @ lit ''\<newline>'')
         @ (lit ''Type: '' @ type todo @ lit ''\<newline>'')
         @ (lit ''Due: '' @ dueDate todo @ lit ''\<newline>'')
         @ lit ''\<newline>'')"

text \<open>
  \<open>formatMessage(childId, todos, currentDate?)\<close>. Besides its arguments it reads the
  clock (\<open>now\<close>, when no date is passed) and the course table.
\<close>

definition formatMessage ::
  "jsdate \<Rightarrow> error + course list \<Rightarrow> jsstring \<Rightarrow> ParsedTodoItem list \<Rightarrow> jsdate option
   \<Rightarrow> error + jsstring" where
  "formatMessage now courseTable childId todos currentDate =
     (let date = (case currentDate of Some d \<Rightarrow> d | None \<Rightarrow> now);
          formattedDate = formatDateYYYYMMDD date;
          message = lit ''Assignments for '' @ formattedDate @ lit '':\<newline>\<newline>''
      in if length todos = 0 then Inr (message @ lit ''No assignments due.\<newline>'')
         else (case getCourseMap courseTable childId of
                 Inl e \<Rightarrow> Inl e
               | Inr courseMap \<Rightarrow> Inr (foldl (formatTodo courseMap) message todos)))"

definition formatPreview :: "jsstring \<Rightarrow> int \<Rightarrow> jsstring" where
  "formatPreview message maxLength =
     (if int (length message) \<le> maxLength then message
      else substring0 message (maxLength - 3) @ lit ''...'')"

text \<open>\<open>Math.ceil(a / b)\<close> on non-negative integers.\<close>

definition ceilDiv :: "nat \<Rightarrow> nat \<Rightarrow> nat" where
  "ceilDiv a b = (a + b - 1) div b"

definition hasUnicode :: "jsstring \<Rightarrow> bool" where
  "hasUnicode message = list_ex (\<lambda>c. \<not> c \<le> 0x7F) message"

definition countSmsSegments :: "jsstring \<Rightarrow> nat" where
  "countSmsSegments message =
     (let segmentLength = (if hasUnicode message then 70 else 160)
      in if length message \<le> segmentLength then 1
         else (let multiPartSegmentLength = (if hasUnicode message then 67 else 153)
               in ceilDiv (length message) multiPartSegmentLength))"

record validation =
  valid :: bool
  segments :: nat
  errors :: "jsstring list"

definition validateMessage :: "jsstring \<Rightarrow> int \<Rightarrow> validation" where
  "validateMessage message maxSegments =
     (let segs = countSmsSegments message;
          errors1 = (if length (trim message) = 0 then [lit ''Message cannot be empty''] else []);
          errors2 = (if int segs > maxSegments
                     then errors1 @ [lit ''Message exceeds maximum of '' @ showInt maxSegments
                                     @ lit '' SMS segments (currently '' @ showNat segs @ lit '')'']
                     else errors1)
      in \<lparr> valid = (length errors2 = 0), segments = segs, errors = errors2 \<rparr>)"

text \<open>The default of the parameter: \<open>maxSegments = 5\<close>.\<close>

definition validateMessageDefault :: "jsstring \<Rightarrow> validation" where
  "validateMessageDefault message = validateMessage message 5"

section \<open>CanvasService.sortByDueDate (services/canvas.service.ts)\<close>

text \<open>
  \<open>Array.prototype.sort(compare)\<close> is a stable sort: with a consistent comparator the
  result is the one arrangement that is ordered by the comparator and keeps the input
  order of the elements the comparator calls equal. It is modelled by insertion from the
  right, which computes that arrangement.
\<close>

fun insertBy :: "('a \<Rightarrow> 'a \<Rightarrow> int) \<Rightarrow> 'a \<Rightarrow> 'a list \<Rightarrow> 'a list" where
  "insertBy compare x [] = [x]"
| "insertBy compare x (y # ys) =
     (if compare x y \<le> 0 then x # y # ys else y # insertBy compare x ys)"

definition arraySort :: "('a \<Rightarrow> 'a \<Rightarrow> int) \<Rightarrow> 'a list \<Rightarrow> 'a list" where
  "arraySort compare xs = foldr (insertBy compare) xs []"

text \<open>
  \<open>new Date(s).getTime()\<close> is the JavaScript runtime's parser, taken as the parameter
  \<open>getTime\<close> (milliseconds since the epoch). The strings are the ISO-8601 instants that
  \<open>parseTodoItems\<close> lets through, so the result is a number, never \<open>NaN\<close>.
\<close>

definition sortByDueDate :: "(jsstring \<Rightarrow> int) \<Rightarrow> ParsedTodoItem list \<Rightarrow> ParsedTodoItem list" where
  "sortByDueDate getTime items =
     arraySort (\<lambda>a b. (let dateA = getTime (dueAt a); dateB = getTime (dueAt b)
                        in dateA - dateB)) items"

text \<open>The order the specification describes: by due instant, then by title.\<close>

definition titleLe :: "jsstring \<Rightarrow> jsstring \<Rightarrow> bool" where
  "titleLe a b \<longleftrightarrow> (map unat a, map unat b) \<in> lexord {(x, y). x < y} \<or> a = b"

definition dueThenTitle :: "(jsstring \<Rightarrow> int) \<Rightarrow> ParsedTodoItem \<Rightarrow> ParsedTodoItem \<Rightarrow> bool" where
  "dueThenTitle getTime a b \<longleftrightarrow>
     getTime (dueAt a) < getTime (dueAt b)
     \<or> (getTime (dueAt a) = getTime (dueAt b) \<and> titleLe (assignmentName a) (assignmentName b))"

section \<open>SchedulerService (services/scheduler.service.ts)\<close>

record preference =
  sendTime :: jsstring
  sendDays :: jsstring
  includeChildInSms :: bool

record parentRow =
  parent_phoneNumber :: "jsstring option"
  timezone :: jsstring

record childRow =
  child_phoneNumber :: "jsstring option"

text \<open>\<open>s.split(sep)\<close> for a one-character separator, and \<open>xs.join(sep)\<close>.\<close>

fun split :: "16 word \<Rightarrow> jsstring \<Rightarrow> jsstring list" where
  "split sep [] = [[]]"
| "split sep (c # cs) =
     (if c = sep then [] # split sep cs
      else (case split sep cs of
              p # ps \<Rightarrow> (c # p) # ps
            | [] \<Rightarrow> [[c]]))"

fun join :: "jsstring \<Rightarrow> jsstring list \<Rightarrow> jsstring" where
  "join sep [] = []"
| "join sep [x] = x"
| "join sep (x # y # ys) = x @ sep @ join sep (y # ys)"

definition dayMap :: "jsstring \<rightharpoonup> nat" where
  "dayMap = map_of [(lit ''Sun'', 0), (lit ''Mon'', 1), (lit ''Tue'', 2), (lit ''Wed'', 3),
                    (lit ''Thu'', 4), (lit ''Fri'', 5), (lit ''Sat'', 6)]"

text \<open>
  In a template string and in \<open>join\<close> a missing value prints as \<open>undefined\<close> and as the
  empty string respectively. Day names that name a member of \<open>Object.prototype\<close> are
  outside the model.
\<close>

definition buildCronExpression :: "jsstring \<Rightarrow> jsstring \<Rightarrow> jsstring \<Rightarrow> jsstring" where
  "buildCronExpression sendTime' sendDays' timezone' =
     (let parts = split 0x3A sendTime';
          hours = (case parts of h # _ \<Rightarrow> h | [] \<Rightarrow> lit ''undefined'');
          minutes = (case parts of _ # m # _ \<Rightarrow> m | _ \<Rightarrow> lit ''undefined'');
          days = map (\<lambda>d. dayMap (trim d)) (split 0x2C sendDays');
          dayRange = (if length days = 5
                         \<and> list_all (\<lambda>(d, i). d = Some (i + 1)) (zip days [0..<length days])
                      then lit ''1-5''
                      else join (lit '','')
                             (map (\<lambda>d. case d of Some n \<Rightarrow> showNat n | None \<Rightarrow> []) days))
      in minutes @ lit '' '' @ hours @ lit '' * * '' @ dayRange)"

text \<open>
  The queue is the recurring-job backend (Bull on Redis), a library outside the
  repository. It is modelled by what the library does with the calls the scheduler makes.
  A job lives under its id: \<open>getJob(id)\<close> finds the job with that id and
  \<open>job.remove()\<close> deletes it. \<open>add(name, data, {repeat: {cron, tz}, jobId})\<close> does not
  store a job under \<open>jobId\<close>. It parses the cron expression and throws, storing nothing,
  when the expression is rejected; it records the repeat configuration under the key
  \<open>name:jobId::tz:cron\<close>, one entry per key, where adding a key that is present only
  refreshes its next firing time; and it stores the next delayed job under the id
  \<open>repeat:<md5>:<millis>\<close>, unless a job with that id is there. The cron parser with the
  next firing time it computes, and the hash, are the library's and are parameters.
\<close>

record bull =
  parseCron :: "jsstring \<Rightarrow> jsstring \<Rightarrow> error + nat"
  md5 :: "jsstring \<Rightarrow> jsstring"

record job =
  job_id :: jsstring
  job_name :: jsstring
  job_parentId :: jsstring
  job_childId :: jsstring
  repeat_cron :: jsstring
  repeat_tz :: jsstring

record repeatable =
  rep_key :: jsstring
  rep_name :: jsstring
  rep_id :: jsstring
  rep_cron :: jsstring
  rep_tz :: jsstring
  rep_next :: nat

record queue =
  jobs :: "job list"
  repeatables :: "repeatable list"

definition emptyQueue :: queue where
  "emptyQueue = \<lparr> jobs = [], repeatables = [] \<rparr>"

definition getJob :: "queue \<Rightarrow> jsstring \<Rightarrow> job option" where
  "getJob q jobId = find (\<lambda>j. job_id j = jobId) (jobs q)"

definition job_remove :: "job \<Rightarrow> queue \<Rightarrow> queue" where
  "job_remove j q = q \<lparr> jobs := remove1 j (jobs q) \<rparr>"

definition repeatKey :: "jsstring \<Rightarrow> jsstring \<Rightarrow> jsstring \<Rightarrow> jsstring \<Rightarrow> jsstring" where
  "repeatKey name jobId tz cron =
     name @ lit '':'' @ (if jobId \<noteq> [] then jobId @ lit '':'' else lit '':'') @ lit '':''
     @ (if tz \<noteq> [] then tz @ lit '':'' else lit '':'') @ cron"

definition repeatJobId :: "bull \<Rightarrow> jsstring \<Rightarrow> nat \<Rightarrow> jsstring" where
  "repeatJobId b key millis = lit ''repeat:'' @ md5 b key @ lit '':'' @ showNat millis"

definition queue_add ::
  "bull \<Rightarrow> queue \<Rightarrow> jsstring \<Rightarrow> jsstring \<times> jsstring \<Rightarrow> jsstring \<Rightarrow> jsstring \<Rightarrow> jsstring
   \<Rightarrow> error + queue" where
  "queue_add b q name data cron tz jobId =
     (case parseCron b cron tz of
        Inl e \<Rightarrow> Inl e
      | Inr nextMillis \<Rightarrow>
          (let key = repeatKey name jobId tz cron;
               customId = repeatJobId b key nextMillis;
               reps = (if key \<in> set (map rep_key (repeatables q))
                       then map (\<lambda>r. if rep_key r = key then r \<lparr> rep_next := nextMillis \<rparr> else r)
                              (repeatables q)
                       else repeatables q
                            @ [\<lparr> rep_key = key, rep_name = name, rep_id = jobId, rep_cron = cron,
                                 rep_tz = tz, rep_next = nextMillis \<rparr>]);
               js = (if customId \<in> set (map job_id (jobs q)) then jobs q
                     else jobs q
                          @ [\<lparr> job_id = customId, job_name = name, job_parentId = fst data,
                               job_childId = snd data, repeat_cron = cron, repeat_tz = tz \<rparr>])
           in Inr \<lparr> jobs = js, repeatables = reps \<rparr>))"

definition smsJobId :: "jsstring \<Rightarrow> jsstring \<Rightarrow> jsstring" where
  "smsJobId parentId childId = lit ''sms-'' @ parentId @ lit ''-'' @ childId"

text \<open>The step "remove existing job if it exists" of \<open>scheduleDailySmsForPair\<close>.\<close>

definition removeExisting :: "queue \<Rightarrow> jsstring \<Rightarrow> queue" where
  "removeExisting q jobId =
     (case getJob q jobId of Some existingJob \<Rightarrow> job_remove existingJob q | None \<Rightarrow> q)"

text \<open>
  \<open>scheduleDailySmsForPair(parentId, childId)\<close>. \<open>findParentWithPrefs\<close> is the query
  \<open>prisma.parent.findUnique\<close> with its preferences included: it fails, finds nothing, or
  returns the parent and the preferences if there are any. An error of \<open>add\<close> is logged
  and thrown again; the removal before it has taken effect by then.
\<close>

definition scheduleDailySmsForPair ::
  "bull \<Rightarrow> (jsstring \<Rightarrow> error + (parentRow \<times> preference option) option) \<Rightarrow> jsstring \<Rightarrow> jsstring
   \<Rightarrow> queue \<Rightarrow> queue \<times> (error + unit)" where
  "scheduleDailySmsForPair b findParentWithPrefs parentId childId q =
     (case findParentWithPrefs parentId of
        Inl e \<Rightarrow> (q, Inl e)
      | Inr None \<Rightarrow> (q, Inl (Error (lit ''Parent or preferences not found'')))
      | Inr (Some (parent, None)) \<Rightarrow> (q, Inl (Error (lit ''Parent or preferences not found'')))
      | Inr (Some (parent, Some prefs)) \<Rightarrow>
          (let cronExpression = buildCronExpression (sendTime prefs) (sendDays prefs) (timezone parent);
               jobId = smsJobId parentId childId;
               q1 = removeExisting q jobId
           in case queue_add b q1 (lit ''send-sms'') (parentId, childId) cronExpression
                     (timezone parent) jobId of
                Inl e \<Rightarrow> (q1, Inl e)
              | Inr q2 \<Rightarrow> (q2, Inr ())))"

text \<open>
  The triggers installed for a pair: the repeat configurations recorded with the pair's
  job id. Each of them makes the backend fire a job for the pair on its own schedule.
\<close>

definition triggersFor :: "jsstring \<Rightarrow> jsstring \<Rightarrow> queue \<Rightarrow> repeatable list" where
  "triggersFor parentId childId q =
     filter (\<lambda>r. rep_id r = smsJobId parentId childId) (repeatables q)"

section \<open>TwilioService.sendSms (services/twilio.service.ts)\<close>

text \<open>A nullable string is truthy when it is present and not empty.\<close>

fun truthy :: "jsstring option \<Rightarrow> bool" where
  "truthy None = False"
| "truthy (Some s) = (s \<noteq> [])"

definition isDigit :: "16 word \<Rightarrow> bool" where
  "isDigit c \<longleftrightarrow> 0x30 \<le> c \<and> c \<le> 0x39"

text \<open>The E.164 test \<open>/^\+[1-9]\d{1,14}$/\<close>.\<close>

definition validatePhoneNumber :: "jsstring \<Rightarrow> bool" where
  "validatePhoneNumber phoneNumber =
     (case phoneNumber of
        c0 # c1 # ds \<Rightarrow>
          c0 = 0x2B \<and> 0x31 \<le> c1 \<and> c1 \<le> 0x39
          \<and> 1 \<le> length ds \<and> length ds \<le> 14 \<and> list_all isDigit ds
      | _ \<Rightarrow> False)"

text \<open>
  The provider as one attempt sees it: whether the client initialises (it is cached once
  it does), the configured origin number, and what \<open>messages.create\<close> answers for a body,
  an origin and a destination: an error, or a message whose \<open>sid\<close> may be missing.
\<close>

record twilio =
  initializeTwilioClient :: "error option"
  fromPhoneNumber :: "jsstring option"
  messagesCreate :: "jsstring \<Rightarrow> jsstring \<Rightarrow> jsstring \<Rightarrow> error + jsstring option"

definition sendSms :: "twilio \<Rightarrow> jsstring \<Rightarrow> jsstring \<Rightarrow> error + jsstring" where
  "sendSms tw toPhoneNumber messageBody =
     (let attempt =
        (case initializeTwilioClient tw of
           Some e \<Rightarrow> Inl e
         | None \<Rightarrow>
             (case fromPhoneNumber tw of
                None \<Rightarrow> Inl (Error (lit ''Twilio client not properly initialized''))
              | Some from \<Rightarrow>
                  if from = [] then Inl (Error (lit ''Twilio client not properly initialized''))
                  else if \<not> validatePhoneNumber toPhoneNumber
                  then Inl (Error (lit ''Invalid phone number format (must be E.164: +1234567890)''))
                  else (case messagesCreate tw messageBody from toPhoneNumber of
                          Inl e \<Rightarrow> Inl e
                        | Inr None \<Rightarrow> Inl (Error (lit ''Failed to send SMS''))
                        | Inr (Some sid) \<Rightarrow>
                            if sid \<noteq> [] then Inr sid else Inl (Error (lit ''Failed to send SMS'')))))
      in case attempt of
           Inl error \<Rightarrow> Inl (Error (lit ''Failed to send SMS: '' @ message_of error))
         | Inr sid \<Rightarrow> Inr sid)"

section \<open>MessageService.logMessage (services/message.service.ts)\<close>

datatype recipient = parent | child

datatype delivery = pending | sent | failed | delivered

text \<open>
  A row of the message table, the record of one send. The generated id and the
  \<open>sentAt\<close> time stamp are left out: nothing below reads them.
\<close>

record message =
  msg_childId :: jsstring
  msg_parentId :: "jsstring option"
  messageBody :: jsstring
  recipientPhone :: jsstring
  recipientType :: recipient
  twilioSid :: "jsstring option"
  status :: delivery
  assignmentCount :: nat

record LogMessageParams =
  p_childId :: jsstring
  p_parentId :: "jsstring option"
  p_messageBody :: jsstring
  p_recipientPhone :: jsstring
  p_recipientType :: recipient
  p_twilioSid :: "jsstring option"
  p_status :: delivery
  p_assignmentCount :: "nat option"

type_synonym store = "message list"

text \<open>\<open>logMessage\<close> inserts one row; \<open>create\<close> says whether the insert fails.\<close>

definition messageData :: "LogMessageParams \<Rightarrow> message" where
  "messageData params =
     \<lparr> msg_childId = p_childId params,
       msg_parentId = (if truthy (p_parentId params) then p_parentId params else None),
       messageBody = p_messageBody params,
       recipientPhone = p_recipientPhone params,
       recipientType = p_recipientType params,
       twilioSid = p_twilioSid params,
       status = p_status params,
       assignmentCount = (case p_assignmentCount params of Some n \<Rightarrow> n | None \<Rightarrow> 0) \<rparr>"

definition logMessage ::
  "(message \<Rightarrow> error option) \<Rightarrow> LogMessageParams \<Rightarrow> store \<Rightarrow> store \<times> (error + message)" where
  "logMessage create params st =
     (let row = messageData params
      in case create row of
           Some e \<Rightarrow> (st, Inl e)
         | None \<Rightarrow> (st @ [row], Inr row))"

section \<open>The worker (worker.ts)\<close>

text \<open>
  What one run of \<open>processSmsJob\<close> meets outside itself: the outcome of the Canvas fetch,
  the clock, the tables it queries, the provider, and whether an insert into the message
  table fails. The failure handler queries the parent a second time.
\<close>

record world =
  fetchTodoItems :: "jsstring \<Rightarrow> error + ParsedTodoItem list"
  clock :: jsdate
  courseTable :: "error + course list"
  findParent :: "jsstring \<Rightarrow> error + parentRow option"
  findChild :: "jsstring \<Rightarrow> error + childRow option"
  findPreference :: "jsstring \<Rightarrow> error + preference option"
  twilioService :: twilio
  createMessage :: "message \<Rightarrow> error option"
  findParentOnFailure :: "jsstring \<Rightarrow> error + parentRow option"

record job_result =
  success :: bool
  res_assignmentCount :: nat
  messageLength :: nat
  smsSegments :: nat

record prepared =
  todos :: "ParsedTodoItem list"
  msg :: jsstring
  validation_of :: validation
  parent_of :: parentRow
  child_of :: childRow
  preferences_of :: "preference option"

text \<open>
  Steps 1 to 3 of the \<open>try\<close> block: fetch, format and validate, look the rows up. The
  three lookups run under \<open>Promise.all\<close>; when several fail the model reports the first
  in the order parent, child, preference.
\<close>

definition prepare :: "world \<Rightarrow> jsstring \<Rightarrow> jsstring \<Rightarrow> error + prepared" where
  "prepare w parentId childId =
     (case fetchTodoItems w childId of
        Inl e \<Rightarrow> Inl e
      | Inr tds \<Rightarrow>
     (case formatMessage (clock w) (courseTable w) childId tds (Some (clock w)) of
        Inl e \<Rightarrow> Inl e
      | Inr m \<Rightarrow>
     (let v = validateMessageDefault m
      in if \<not> valid v
         then Inl (Error (lit ''Invalid message: '' @ join (lit '', '') (errors v)))
         else
     (case findParent w parentId of
        Inl e \<Rightarrow> Inl e
      | Inr par \<Rightarrow>
     (case findChild w childId of
        Inl e \<Rightarrow> Inl e
      | Inr chi \<Rightarrow>
     (case findPreference w parentId of
        Inl e \<Rightarrow> Inl e
      | Inr prefs \<Rightarrow>
     (case (par, chi) of
        (Some pa, Some ch) \<Rightarrow>
          Inr \<lparr> todos = tds, msg = m, validation_of = v, parent_of = pa, child_of = ch,
                preferences_of = prefs \<rparr>
      | _ \<Rightarrow> Inl (Error (lit ''Parent or child not found'')))))))))"

text \<open>Step 4: send to the parent and log the send.\<close>

definition sendToParent ::
  "world \<Rightarrow> jsstring \<Rightarrow> jsstring \<Rightarrow> prepared \<Rightarrow> store \<Rightarrow> store \<times> (error + unit)" where
  "sendToParent w parentId childId pr st =
     (case parent_phoneNumber (parent_of pr) of
        None \<Rightarrow> (st, Inr ())
      | Some phone \<Rightarrow>
          if phone = [] then (st, Inr ())
          else (case sendSms (twilioService w) phone (msg pr) of
                  Inl e \<Rightarrow> (st, Inl e)
                | Inr parentSid \<Rightarrow>
                    (case logMessage (createMessage w)
                            \<lparr> p_childId = childId, p_parentId = Some parentId,
                              p_messageBody = msg pr, p_recipientPhone = phone,
                              p_recipientType = parent, p_twilioSid = Some parentSid,
                              p_status = sent, p_assignmentCount = Some (length (todos pr)) \<rparr> st of
                       (st', Inl e) \<Rightarrow> (st', Inl e)
                     | (st', Inr _) \<Rightarrow> (st', Inr ()))))"

text \<open>Step 5: the same for the child, when the parent opted in.\<close>

definition childIncluded :: "prepared \<Rightarrow> bool" where
  "childIncluded pr \<longleftrightarrow>
     truthy (child_phoneNumber (child_of pr))
     \<and> (case preferences_of pr of Some prefs \<Rightarrow> includeChildInSms prefs | None \<Rightarrow> False)"

definition sendToChild ::
  "world \<Rightarrow> jsstring \<Rightarrow> jsstring \<Rightarrow> prepared \<Rightarrow> store \<Rightarrow> store \<times> (error + unit)" where
  "sendToChild w parentId childId pr st =
     (case child_phoneNumber (child_of pr) of
        None \<Rightarrow> (st, Inr ())
      | Some phone \<Rightarrow>
          if \<not> childIncluded pr then (st, Inr ())
          else (case sendSms (twilioService w) phone (msg pr) of
                  Inl e \<Rightarrow> (st, Inl e)
                | Inr childSid \<Rightarrow>
                    (case logMessage (createMessage w)
                            \<lparr> p_childId = childId, p_parentId = Some parentId,
                              p_messageBody = msg pr, p_recipientPhone = phone,
                              p_recipientType = child, p_twilioSid = Some childSid,
                              p_status = sent, p_assignmentCount = Some (length (todos pr)) \<rparr> st of
                       (st', Inl e) \<Rightarrow> (st', Inl e)
                     | (st', Inr _) \<Rightarrow> (st', Inr ()))))"

definition tryBlock ::
  "world \<Rightarrow> jsstring \<Rightarrow> jsstring \<Rightarrow> store \<Rightarrow> store \<times> (error + job_result)" where
  "tryBlock w parentId childId st =
     (case prepare w parentId childId of
        Inl e \<Rightarrow> (st, Inl e)
      | Inr pr \<Rightarrow>
          (case sendToParent w parentId childId pr st of
             (st1, Inl e) \<Rightarrow> (st1, Inl e)
           | (st1, Inr _) \<Rightarrow>
               (case sendToChild w parentId childId pr st1 of
                  (st2, Inl e) \<Rightarrow> (st2, Inl e)
                | (st2, Inr _) \<Rightarrow>
                    (st2, Inr \<lparr> success = True,
                                res_assignmentCount = length (todos pr),
                                messageLength = length (msg pr),
                                smsSegments = segments (validation_of pr) \<rparr>))))"

text \<open>
  The \<open>catch\<close> block: log a failed message for the parent, if the parent is found and has
  a phone number; an error while doing so is swallowed.
\<close>

definition catchBlock :: "world \<Rightarrow> jsstring \<Rightarrow> jsstring \<Rightarrow> store \<Rightarrow> store" where
  "catchBlock w parentId childId st =
     (case findParentOnFailure w parentId of
        Inl logError \<Rightarrow> st
      | Inr None \<Rightarrow> st
      | Inr (Some pa) \<Rightarrow>
          (case parent_phoneNumber pa of
             None \<Rightarrow> st
           | Some phone \<Rightarrow>
               if phone = [] then st
               else fst (logMessage (createMessage w)
                           \<lparr> p_childId = childId, p_parentId = Some parentId,
                             p_messageBody = [], p_recipientPhone = phone,
                             p_recipientType = parent, p_twilioSid = None,
                             p_status = failed, p_assignmentCount = None \<rparr> st)))"

definition processSmsJob ::
  "world \<Rightarrow> jsstring \<Rightarrow> jsstring \<Rightarrow> store \<Rightarrow> store \<times> (error + job_result)" where
  "processSmsJob w parentId childId st =
     (case tryBlock w parentId childId st of
        (st', Inr r) \<Rightarrow> (st', Inr r)
      | (st', Inl error) \<Rightarrow> (catchBlock w parentId childId st', Inl error))"

text \<open>
  The queue's \<open>defaultJobOptions\<close> give a job \<open>attempts: 3\<close>: the backend runs the
  processor again after a run that throws, until a run returns or three runs have thrown.
  Each run meets its own world. The back-off delay between runs is time and not modelled.
\<close>

definition attempts :: nat where
  "attempts = 3"

datatype outcome = completed job_result | failedTerminal error | awaitingRetry

fun runAttempts ::
  "nat \<Rightarrow> world list \<Rightarrow> jsstring \<Rightarrow> jsstring \<Rightarrow> store \<Rightarrow> store \<times> outcome" where
  "runAttempts 0 ws parentId childId st = (st, awaitingRetry)"
| "runAttempts (Suc n) [] parentId childId st = (st, awaitingRetry)"
| "runAttempts (Suc n) (w # ws) parentId childId st =
     (case processSmsJob w parentId childId st of
        (st', Inr r) \<Rightarrow> (st', completed r)
      | (st', Inl e) \<Rightarrow>
          if n = 0 then (st', failedTerminal e)
          else runAttempts n ws parentId childId st')"

definition runFiring :: "world list \<Rightarrow> jsstring \<Rightarrow> jsstring \<Rightarrow> store \<Rightarrow> store \<times> outcome" where
  "runFiring ws parentId childId st = runAttempts attempts ws parentId childId st"

text \<open>The records of a status for one recipient, and the recipients one run resolves.\<close>

definition recordsFor :: "delivery \<Rightarrow> jsstring \<Rightarrow> recipient \<Rightarrow> store \<Rightarrow> message list" where
  "recordsFor s phone role st =
     filter (\<lambda>r. status r = s \<and> recipientPhone r = phone \<and> recipientType r = role) st"

text \<open>The row a run logs for a send that succeeded, and the row its failure handler logs.\<close>

definition sentRecord ::
  "jsstring \<Rightarrow> jsstring \<Rightarrow> prepared \<Rightarrow> jsstring \<Rightarrow> recipient \<Rightarrow> jsstring \<Rightarrow> message" where
  "sentRecord parentId childId pr phone role sid =
     messageData \<lparr> p_childId = childId, p_parentId = Some parentId,
                   p_messageBody = msg pr, p_recipientPhone = phone,
                   p_recipientType = role, p_twilioSid = Some sid,
                   p_status = sent, p_assignmentCount = Some (length (todos pr)) \<rparr>"

definition failedRecord :: "jsstring \<Rightarrow> jsstring \<Rightarrow> jsstring \<Rightarrow> message" where
  "failedRecord parentId childId phone =
     messageData \<lparr> p_childId = childId, p_parentId = Some parentId,
                   p_messageBody = [], p_recipientPhone = phone,
                   p_recipientType = parent, p_twilioSid = None,
                   p_status = failed, p_assignmentCount = None \<rparr>"

definition recipients :: "prepared \<Rightarrow> (jsstring \<times> recipient) list" where
  "recipients pr =
     (case parent_phoneNumber (parent_of pr) of
        Some phone \<Rightarrow> if phone \<noteq> [] then [(phone, parent)] else []
      | None \<Rightarrow> [])
     @ (case child_phoneNumber (child_of pr) of
          Some phone \<Rightarrow> if childIncluded pr then [(phone, child)] else []
        | None \<Rightarrow> [])"

section \<open>Example data\<close>

text \<open>The item, the stored label and the date of the formatting example.\<close>

definition exampleDate :: jsdate where
  "exampleDate = \<lparr> getFullYear = 2026, getMonth = 1, getDate = 18 \<rparr>"

definition essay :: ParsedTodoItem where
  "essay = \<lparr> type = lit ''submitting'', assignmentName = lit ''Essay on Shakespeare'',
             dueAt = lit ''2026-02-25T23:59:00Z'', dueDate = lit ''2026-02-25'',
             courseId = lit ''101'' \<rparr>"

definition english :: "jsstring \<Rightarrow> course" where
  "english childId = \<lparr> course_childId = childId, canvasCourseId = lit ''101'',
                       courseName = lit ''English'', isActive = True \<rparr>"

text \<open>Two items due at the same instant, the one titled B fetched before the one titled A.\<close>

definition itemB :: ParsedTodoItem where
  "itemB = \<lparr> type = lit ''submitting'', assignmentName = lit ''B'',
             dueAt = lit ''2026-02-18T23:59:00Z'', dueDate = lit ''2026-02-18'',
             courseId = lit ''101'' \<rparr>"

definition itemA :: ParsedTodoItem where
  "itemA = \<lparr> type = lit ''submitting'', assignmentName = lit ''A'',
             dueAt = lit ''2026-02-18T23:59:00Z'', dueDate = lit ''2026-02-18'',
             courseId = lit ''101'' \<rparr>"

text \<open>A parent with two successive recurrence preferences.\<close>

definition exampleParent :: parentRow where
  "exampleParent = \<lparr> parent_phoneNumber = Some (lit ''+15551234567''),
                      timezone = lit ''America/Los_Angeles'' \<rparr>"

definition examplePrefs :: preference where
  "examplePrefs = \<lparr> sendTime = lit ''15:00:00'', sendDays = lit ''Mon,Tue,Wed,Thu,Fri'',
                     includeChildInSms = True \<rparr>"

definition laterPrefs :: preference where
  "laterPrefs = \<lparr> sendTime = lit ''16:30:00'', sendDays = lit ''Mon,Wed'',
                   includeChildInSms = True \<rparr>"

definition findWith :: "preference \<Rightarrow> jsstring \<Rightarrow> error + (parentRow \<times> preference option) option" where
  "findWith prefs parentId = Inr (Some (exampleParent, Some prefs))"

text \<open>A backend that accepts every cron expression, with any hash and next firing time.\<close>

definition bullWith :: "(jsstring \<Rightarrow> jsstring) \<Rightarrow> nat \<Rightarrow> bull" where
  "bullWith h n = \<lparr> parseCron = (\<lambda>cron tz. Inr n), md5 = h \<rparr>"

text \<open>
  Worlds for the worker: one in which every collaborator answers, and variants in which
  the Canvas fetch fails, the provider fails for the child's number, or an address is not
  in E.164 form. The fetch returns no items, so the message is the "no assignments" one.
\<close>

definition parentPhone :: jsstring where
  "parentPhone = lit ''+15551234567''"

definition childPhone :: jsstring where
  "childPhone = lit ''+15557654321''"

definition exampleChild :: childRow where
  "exampleChild = \<lparr> child_phoneNumber = Some childPhone \<rparr>"



definition okTwilio :: twilio where
  "okTwilio = \<lparr> initializeTwilioClient = None, fromPhoneNumber = Some (lit ''+15550000000''),
                 messagesCreate = (\<lambda>body from to. Inr (Some (lit ''SM1''))) \<rparr>"

definition okWorld :: world where
  "okWorld = \<lparr> fetchTodoItems = (\<lambda>childId. Inr []), clock = exampleDate, courseTable = Inr [],
                findParent = (\<lambda>parentId. Inr (Some exampleParent)),
                findChild = (\<lambda>childId. Inr (Some exampleChild)),
                findPreference = (\<lambda>parentId. Inr (Some examplePrefs)),
                twilioService = okTwilio, createMessage = (\<lambda>row. None),
                findParentOnFailure = (\<lambda>parentId. Inr (Some exampleParent)) \<rparr>"

definition fetchFails :: "jsstring \<Rightarrow> world" where
  "fetchFails reason = okWorld \<lparr> fetchTodoItems := (\<lambda>childId. Inl (Error reason)) \<rparr>"

definition childSendFails :: world where
  "childSendFails =
     okWorld \<lparr> twilioService := okTwilio \<lparr> messagesCreate :=
       (\<lambda>body from to. if to = childPhone then Inl (Error (lit ''connect ETIMEDOUT''))
                         else Inr (Some (lit ''SM1''))) \<rparr> \<rparr>"



definition examplePrepared :: prepared where
  "examplePrepared =
     \<lparr> todos = [], msg = lit ''Assignments for 2026-02-18:\<newline>\<newline>No assignments due.\<newline>'',
       validation_of = \<lparr> valid = True, segments = 1, errors = [] \<rparr>,
       parent_of = exampleParent, child_of = exampleChild, preferences_of = Some examplePrefs \<rparr>"


section \<open>Properties: strings and arithmetic\<close>

lemma lit_append: "lit (a @ b) = lit a @ lit b"
  by (simp add: lit_def)

lemma length_lit: "length (lit s) = length s"
  by (simp add: lit_def)

lemma ceilDiv_bounds:
  assumes "0 < b"
  shows "ceilDiv a b * b < a + b" and "a \<le> ceilDiv a b * b"
proof -
  let ?z = "(a + b - 1) div b"
  have below: "?z * b \<le> a + b - 1"
    by simp
  have above: "a + b - 1 < ?z * b + b"
    using assms by (metis add.commute mult.commute mult_Suc_right dividend_less_div_times)
  show "ceilDiv a b * b < a + b"
    using below assms unfolding ceilDiv_def by linarith
  show "a \<le> ceilDiv a b * b"
    using above assms unfolding ceilDiv_def by linarith
qed

lemma ceilDiv_ceiling: "0 < b \<Longrightarrow> int (ceilDiv a b) = \<lceil>real a / real b\<rceil>"
proof -
  assume b: "0 < b"
  have lo: "real (ceilDiv a b) * real b < real a + real b"
    using ceilDiv_bounds(1)[OF b, of a] by (metis of_nat_add of_nat_less_iff of_nat_mult)
  have hi: "real a \<le> real (ceilDiv a b) * real b"
    using ceilDiv_bounds(2)[OF b, of a] by (metis of_nat_le_iff of_nat_mult)
  have "\<lceil>real a / real b\<rceil> = int (ceilDiv a b)"
  proof (rule ceiling_unique)
    show "of_int (int (ceilDiv a b)) - 1 < real a / real b"
      using lo b by (simp add: field_simps)
    show "real a / real b \<le> of_int (int (ceilDiv a b))"
      using hi b by (simp add: field_simps)
  qed
  then show ?thesis by simp
qed

section \<open>Properties: FormattingService\<close>

lemma hasUnicode_iff: "hasUnicode m \<longleftrightarrow> (\<exists>c\<in>set m. 0x7F < c)"
  by (auto simp: hasUnicode_def list_ex_iff not_le)

lemma countSmsSegments_pos: "1 \<le> countSmsSegments m"
  by (auto simp: countSmsSegments_def ceilDiv_def Let_def)

text \<open>
  C8. For a body of length \<open>L\<close>, \<open>countSmsSegments\<close> returns 1 when \<open>L\<close> is at most the
  single-segment threshold (160 when every code unit is ASCII, 70 when one is not), and
  otherwise \<open>ceil(L / 153)\<close> for an all-ASCII body and \<open>ceil(L / 67)\<close> for a body with a
  non-ASCII code unit. An all-ASCII body of length 320 takes 3 segments, a body of
  length 100 with a non-ASCII code unit takes 2.
\<close>

theorem countSmsSegments_thresholds:
  "((\<forall>c\<in>set m. c \<le> 0x7F) \<longrightarrow>
      countSmsSegments m = (if length m \<le> 160 then 1 else nat \<lceil>real (length m) / 153\<rceil>))
   \<and> ((\<exists>c\<in>set m. 0x7F < c) \<longrightarrow>
      countSmsSegments m = (if length m \<le> 70 then 1 else nat \<lceil>real (length m) / 67\<rceil>))
   \<and> ((\<forall>c\<in>set m. c \<le> 0x7F) \<and> length m = 320 \<longrightarrow> countSmsSegments m = 3)
   \<and> ((\<exists>c\<in>set m. 0x7F < c) \<and> length m = 100 \<longrightarrow> countSmsSegments m = 2)"
proof -
  have c153: "nat \<lceil>real (length m) / 153\<rceil> = ceilDiv (length m) 153"
    using ceilDiv_ceiling[of 153 "length m"] by simp
  have c67: "nat \<lceil>real (length m) / 67\<rceil> = ceilDiv (length m) 67"
    using ceilDiv_ceiling[of 67 "length m"] by simp
  have ascii: "(\<forall>c\<in>set m. c \<le> 0x7F) \<Longrightarrow> \<not> hasUnicode m"
    by (auto simp: hasUnicode_iff not_less)
  have wide: "(\<exists>c\<in>set m. 0x7F < c) \<Longrightarrow> hasUnicode m"
    by (simp add: hasUnicode_iff)
  show ?thesis
    using ascii wide by (auto simp: countSmsSegments_def c153 c67 ceilDiv_def Let_def)
qed

theorem countSmsSegments_thresholds_witness:
  "countSmsSegments (replicate 320 0x41) = 3 \<and> countSmsSegments (0xE9 # replicate 99 0x41) = 2"
  using countSmsSegments_thresholds[of "replicate 320 0x41"]
        countSmsSegments_thresholds[of "0xE9 # replicate 99 0x41"]
  by simp

text \<open>
  C9. For a limit \<open>maxLength\<close> of at least 3, \<open>formatPreview\<close> returns the message
  unchanged when its length is at most \<open>maxLength\<close>, and otherwise its first
  \<open>maxLength - 3\<close> code units followed by three dots, a string of exactly \<open>maxLength\<close>
  code units.
\<close>

theorem formatPreview_truncates:
  "3 \<le> maxLength \<Longrightarrow>
     (int (length message) \<le> maxLength \<longrightarrow> formatPreview message maxLength = message)
     \<and> (maxLength < int (length message) \<longrightarrow>
          formatPreview message maxLength = take (nat (maxLength - 3)) message @ lit ''...''
          \<and> int (length (formatPreview message maxLength)) = maxLength)"
  by (auto simp: formatPreview_def substring0_def length_lit)

theorem formatPreview_truncates_witness:
  "(3::int) \<le> 5 \<and> formatPreview (lit ''abcdefgh'') 5 = lit ''ab...''
   \<and> formatPreview (lit ''abc'') 5 = lit ''abc''"
  using formatPreview_truncates[of 5 "lit ''abcdefgh''"] formatPreview_truncates[of 5 "lit ''abc''"]
  by (simp add: lit_def)

text \<open>
  C10. \<open>validateMessage\<close> returns \<open>segments\<close> equal to \<open>countSmsSegments\<close> of the message,
  and \<open>valid\<close> exactly when the trimmed message is not empty and the segment count does
  not exceed \<open>maxSegments\<close>. \<open>countSmsSegments\<close> is at least 1 for every string, the empty
  one included.
\<close>

theorem validateMessage_valid_iff:
  "segments (validateMessage message maxSegments) = countSmsSegments message
   \<and> (valid (validateMessage message maxSegments)
        \<longleftrightarrow> trim message \<noteq> [] \<and> int (countSmsSegments message) \<le> maxSegments)
   \<and> 1 \<le> countSmsSegments message
   \<and> countSmsSegments [] = 1"
  using countSmsSegments_pos[of message]
  by (auto simp: validateMessage_def Let_def countSmsSegments_def hasUnicode_def)

lemmas eval_format = formatMessage_def getCourseMap_def formatTodo_def resolveCourseName_def
  formatDateYYYYMMDD_def showInt_def showNat.simps padStart0_def lit_def Let_def
  exampleDate_def essay_def english_def

lemma foldl_formatTodo_cong:
  "\<forall>t\<in>set ts. m1 (courseId t) = m2 (courseId t) \<Longrightarrow>
     foldl (formatTodo m1) acc ts = foldl (formatTodo m2) acc ts"
  by (induction ts arbitrary: acc) (simp_all add: formatTodo_def resolveCourseName_def)

text \<open>
  C5, as the claim states it, fails: with the same child, items and date,
  \<open>formatMessage\<close> returns different strings for different contents of the course table.
\<close>

theorem formatMessage_reads_course_table:
  "formatMessage exampleDate (Inr [english (lit ''child-1'')]) (lit ''child-1'') [essay] (Some exampleDate)
   \<noteq> formatMessage exampleDate (Inr []) (lit ''child-1'') [essay] (Some exampleDate)"
  by (simp add: eval_format)

text \<open>
  C5, amended. \<open>formatMessage\<close> reads the course table. Its result is determined by its
  arguments together with the child's active stored mappings for the course ids of the
  items: two tables that give these ids the same names give the same message, whatever
  the clock when a date is passed. For an empty list the table is not read at all, and
  without a date the clock stands in for it. Nothing else is read.
\<close>

theorem formatMessage_determined_by_mappings:
  "(getCourseMap table1 childId = Inr m1 \<and> getCourseMap table2 childId = Inr m2
      \<and> (\<forall>t\<in>set items. m1 (courseId t) = m2 (courseId t))
    \<longrightarrow> formatMessage now1 table1 childId items (Some d) = formatMessage now2 table2 childId items (Some d))
   \<and> formatMessage now1 table1 childId [] (Some d) = formatMessage now2 table2 childId [] (Some d)
   \<and> formatMessage now table1 childId items None = formatMessage now table1 childId items (Some now)"
  using foldl_formatTodo_cong[of items m1 m2]
  by (auto simp: formatMessage_def Let_def)

theorem formatMessage_determined_by_mappings_witness:
  "formatMessage exampleDate (Inr [english (lit ''child-1''), english (lit ''child-2'')]) (lit ''child-1'') [essay] (Some exampleDate)
   = formatMessage \<lparr> getFullYear = 1999, getMonth = 0, getDate = 1 \<rparr> (Inr [english (lit ''child-1'')]) (lit ''child-1'') [essay] (Some exampleDate)"
  using formatMessage_determined_by_mappings[of "Inr [english (lit ''child-1''), english (lit ''child-2'')]" "lit ''child-1''"
      "[lit ''101'' \<mapsto> lit ''English'']" "Inr [english (lit ''child-1'')]" "[lit ''101'' \<mapsto> lit ''English'']" "[essay]"
      exampleDate exampleDate "\<lparr> getFullYear = 1999, getMonth = 0, getDate = 1 \<rparr>"]
  by (simp add: getCourseMap_def english_def lit_def)

text \<open>
  C7, as the claim states it, fails in its second half: for an unresolved course id the
  line is not the raw identifier.
\<close>

theorem fallback_is_not_raw_identifier:
  "formatMessage exampleDate (Inr []) (lit ''child-1'') [essay] (Some exampleDate)
     \<noteq> Inr (lit ''Assignments for 2026-02-18:\<newline>\<newline>Course: 101\<newline>Assignment: Essay on Shakespeare\<newline>Type: submitting\<newline>Due: 2026-02-25\<newline>\<newline>'')"
  by (simp add: eval_format)

text \<open>
  C7, amended. The example item with the mapping of 101 to English and the date
  2026-02-18 formats to exactly the message of the specification; and for a course id
  without a stored name (or with an empty one) the group line is \<open>Course \<close> followed by
  the raw identifier.
\<close>

theorem formatMessage_example:
  "formatMessage now (Inr [english childId]) childId [essay] (Some exampleDate)
     = Inr (lit ''Assignments for 2026-02-18:\<newline>\<newline>Course: English\<newline>Assignment: Essay on Shakespeare\<newline>Type: submitting\<newline>Due: 2026-02-25\<newline>\<newline>'')
   \<and> (getCourseMap table childId = Inr m \<and> (m (courseId todo) = None \<or> m (courseId todo) = Some [])
      \<longrightarrow> formatMessage now table childId [todo] (Some d)
          = Inr (lit ''Assignments for '' @ formatDateYYYYMMDD d @ lit '':\<newline>\<newline>''
                 @ lit ''Course: Course '' @ courseId todo @ lit ''\<newline>''
                 @ lit ''Assignment: '' @ assignmentName todo @ lit ''\<newline>''
                 @ lit ''Type: '' @ type todo @ lit ''\<newline>''
                 @ lit ''Due: '' @ dueDate todo @ lit ''\<newline>''
                 @ lit ''\<newline>''))"
proof -
  have ex: "formatMessage now (Inr [english childId]) childId [essay] (Some exampleDate)
     = Inr (lit ''Assignments for 2026-02-18:\<newline>\<newline>Course: English\<newline>Assignment: Essay on Shakespeare\<newline>Type: submitting\<newline>Due: 2026-02-25\<newline>\<newline>'')"
    by (simp add: eval_format)
  have fb: "getCourseMap table childId = Inr m \<Longrightarrow> m (courseId todo) = None \<or> m (courseId todo) = Some []
      \<Longrightarrow> formatMessage now table childId [todo] (Some d)
          = Inr (lit ''Assignments for '' @ formatDateYYYYMMDD d @ lit '':\<newline>\<newline>''
                 @ lit ''Course: Course '' @ courseId todo @ lit ''\<newline>''
                 @ lit ''Assignment: '' @ assignmentName todo @ lit ''\<newline>''
                 @ lit ''Type: '' @ type todo @ lit ''\<newline>''
                 @ lit ''Due: '' @ dueDate todo @ lit ''\<newline>''
                 @ lit ''\<newline>'')"
    by (auto simp: formatMessage_def formatTodo_def resolveCourseName_def Let_def lit_append[symmetric])
  show ?thesis using ex fb by blast
qed

theorem formatMessage_example_witness:
  "formatMessage exampleDate (Inr []) (lit ''child-1'') [essay] (Some exampleDate)
     = Inr (lit ''Assignments for 2026-02-18:\<newline>\<newline>Course: Course 101\<newline>Assignment: Essay on Shakespeare\<newline>Type: submitting\<newline>Due: 2026-02-25\<newline>\<newline>'')"
  using formatMessage_example[of exampleDate "lit ''child-1''" "Inr []" Map.empty essay exampleDate]
  by (simp add: getCourseMap_def formatDateYYYYMMDD_def showInt_def showNat.simps padStart0_def lit_def Let_def
  exampleDate_def essay_def)

section \<open>Properties: sortByDueDate\<close>

text \<open>What the sort does: a permutation, ascending by due instant, ties in input order.\<close>

lemma mset_insertBy: "mset (insertBy c x xs) = add_mset x (mset xs)"
  by (induction xs) auto

lemma mset_arraySort: "mset (arraySort c xs) = mset xs"
  by (induction xs) (auto simp: arraySort_def mset_insertBy)

lemma set_insertBy: "set (insertBy c x xs) = insert x (set xs)"
  by (induction xs) auto

lemma sorted_insertBy_key:
  "sorted_wrt (\<lambda>a b. k a \<le> k b) xs \<Longrightarrow>
   sorted_wrt (\<lambda>a b. k a \<le> k b) (insertBy (\<lambda>a b. k a - k b) x xs)"
  by (induction xs) (auto simp: set_insertBy)

lemma sorted_sortByDueDate:
  "sorted_wrt (\<lambda>a b. getTime (dueAt a) \<le> getTime (dueAt b)) (sortByDueDate getTime items)"
  unfolding sortByDueDate_def arraySort_def Let_def
  by (induction items) (auto intro: sorted_insertBy_key[where k = "\<lambda>a. getTime (dueAt a)"])

lemma filter_insertBy_key:
  "sorted_wrt (\<lambda>a b. k a \<le> k b) xs \<Longrightarrow>
   filter (\<lambda>y. k y = v) (insertBy (\<lambda>a b. k a - k b) x xs)
     = (if k x = v then x # filter (\<lambda>y. k y = v) xs else filter (\<lambda>y. k y = v) xs)"
  by (induction xs) (auto simp: set_insertBy)

lemma stable_sortByDueDate:
  "filter (\<lambda>y. getTime (dueAt y) = v) (sortByDueDate getTime items)
     = filter (\<lambda>y. getTime (dueAt y) = v) items"
proof (induction items)
  case Nil
  then show ?case by (simp add: sortByDueDate_def arraySort_def)
next
  case (Cons x xs)
  have s: "sorted_wrt (\<lambda>a b. getTime (dueAt a) \<le> getTime (dueAt b)) (sortByDueDate getTime xs)"
    by (rule sorted_sortByDueDate)
  have "sortByDueDate getTime (x # xs)
          = insertBy (\<lambda>a b. getTime (dueAt a) - getTime (dueAt b)) x (sortByDueDate getTime xs)"
    by (simp add: sortByDueDate_def arraySort_def)
  then show ?case
    using filter_insertBy_key[OF s, of v x] Cons.IH by simp
qed

text \<open>
  C6. The claim asks for ties in the due instant to be ordered by title, and for an order
  that depends on the multiset of items only. The comparator of \<open>sortByDueDate\<close> looks at
  the due instant alone: two items due at the same instant, titled B and A and fetched in
  that order, come back in that order, and in the other order when fetched the other way.
\<close>

theorem sortByDueDate_keeps_tie_order:
  "sortByDueDate getTime [itemB, itemA] = [itemB, itemA]
   \<and> \<not> sorted_wrt (dueThenTitle getTime) (sortByDueDate getTime [itemB, itemA])
   \<and> sortByDueDate getTime [itemA, itemB] \<noteq> sortByDueDate getTime [itemB, itemA]"
  by (simp add: sortByDueDate_def arraySort_def itemA_def itemB_def dueThenTitle_def titleLe_def lit_def)

section \<open>Properties: scheduleDailySmsForPair\<close>

text \<open>
  The id under which the backend stores a repeated job is never the id the scheduler
  looks up, so the lookup before an install does not see what an earlier install added.
\<close>

lemma repeat_id_head: "repeatJobId b key millis \<noteq> 0x73 # cs"
  by (simp add: repeatJobId_def lit_def)

lemma repeat_id_not_custom: "repeatJobId b key millis \<noteq> smsJobId p c"
  by (simp add: repeatJobId_def smsJobId_def lit_def)

lemma find_snoc:
  "find P (xs @ [y]) = (case find P xs of None \<Rightarrow> if P y then Some y else None | Some x \<Rightarrow> Some x)"
  by (induction xs) auto

lemma removeExisting_repeatables: "repeatables (removeExisting q jid) = repeatables q"
  by (simp add: removeExisting_def job_remove_def split: option.splits)

lemma queue_add_lookup:
  assumes "queue_add b q name data cron tz jid = Inr q'"
  shows "getJob q' (smsJobId p c) = getJob q (smsJobId p c)"
proof -
  from assms obtain n where n: "parseCron b cron tz = Inr n"
    by (auto simp: queue_add_def split: sum.splits)
  let ?id = "repeatJobId b (repeatKey name jid tz cron) n"
  have "jobs q' = jobs q \<or> (\<exists>j. job_id j = ?id \<and> jobs q' = jobs q @ [j])"
  proof (cases "?id \<in> set (map job_id (jobs q))")
    case True
    then show ?thesis using assms n by (auto simp: queue_add_def Let_def)
  next
    case False
    then show ?thesis using assms n by (auto simp: queue_add_def Let_def)
  qed
  then show ?thesis
    using repeat_id_not_custom[of b "repeatKey name jid tz cron" n p c]
    by (auto simp: getJob_def find_snoc split: option.splits)
qed

text \<open>No step of an install takes a trigger away, for any pair.\<close>

lemma refresh_keeps_id:
  "(\<lambda>r. rep_id r = i) \<circ> (\<lambda>r. if rep_key r = key then r \<lparr> rep_next := n \<rparr> else r)
     = (\<lambda>r. rep_id r = i)"
  by (auto simp: fun_eq_iff)

lemma queue_add_keeps_triggers:
  assumes "queue_add b q name data cron tz jid = Inr q'"
  shows "length (triggersFor p c q) \<le> length (triggersFor p c q')"
proof -
  from assms obtain n where n: "parseCron b cron tz = Inr n"
    by (auto simp: queue_add_def split: sum.splits)
  show ?thesis
    using assms n
    by (auto simp: queue_add_def Let_def triggersFor_def refresh_keeps_id split: if_splits)
qed

lemma install_keeps_triggers:
  assumes "scheduleDailySmsForPair b find' p c q = (q', r)"
  shows "length (triggersFor p' c' q) \<le> length (triggersFor p' c' q')"
proof -
  have rm: "triggersFor p' c' (removeExisting q (smsJobId p c)) = triggersFor p' c' q"
    by (simp add: triggersFor_def removeExisting_repeatables)
  show ?thesis
    using assms rm queue_add_keeps_triggers[of b "removeExisting q (smsJobId p c)" _ _ _ _ _ _ p' c']
    by (auto simp: scheduleDailySmsForPair_def Let_def
             split: sum.splits option.splits prod.splits)
qed

text \<open>A cron expression the backend rejects makes the install fail and add nothing.\<close>

lemma install_rejected_cron:
  "find' p = Inr (Some (pa, Some prefs)) \<Longrightarrow>
   parseCron b (buildCronExpression (sendTime prefs) (sendDays prefs) (timezone pa)) (timezone pa) = Inl e \<Longrightarrow>
   scheduleDailySmsForPair b find' p c q = (removeExisting q (smsJobId p c), Inl e)"
  by (simp add: scheduleDailySmsForPair_def queue_add_def Let_def)

lemma cron_without_minutes:
  "buildCronExpression (lit ''15'') (lit ''Mon,Tue,Wed,Thu,Fri'') tz = lit ''undefined 15 * * 1-5''"
  by (simp add: buildCronExpression_def dayMap_def trim_def isWhiteSpace_def lit_def Let_def)

lemmas eval_schedule = scheduleDailySmsForPair_def findWith_def removeExisting_def getJob_def
  job_remove_def queue_add_def repeatKey_def triggersFor_def
  buildCronExpression_def bullWith_def emptyQueue_def exampleParent_def examplePrefs_def
  laterPrefs_def dayMap_def trim_def isWhiteSpace_def showNat.simps lit_def Let_def

lemma first_install:
  "scheduleDailySmsForPair (bullWith h n) (findWith examplePrefs) (lit ''p1'') (lit ''c1'') emptyQueue
   = (\<lparr> jobs = [\<lparr> job_id = repeatJobId (bullWith h n)
                              (lit ''send-sms:sms-p1-c1::America/Los_Angeles:00 15 * * 1-5'') n,
                   job_name = lit ''send-sms'', job_parentId = lit ''p1'', job_childId = lit ''c1'',
                   repeat_cron = lit ''00 15 * * 1-5'', repeat_tz = lit ''America/Los_Angeles'' \<rparr>],
         repeatables = [\<lparr> rep_key = lit ''send-sms:sms-p1-c1::America/Los_Angeles:00 15 * * 1-5'',
                          rep_name = lit ''send-sms'', rep_id = lit ''sms-p1-c1'',
                          rep_cron = lit ''00 15 * * 1-5'', rep_tz = lit ''America/Los_Angeles'',
                          rep_next = n \<rparr>] \<rparr>,
      Inr ())"
  by (simp add: eval_schedule smsJobId_def)

text \<open>
  C1. The claim asks that two installs for a pair leave exactly one trigger, the second
  install removing the trigger of the first. \<open>scheduleDailySmsForPair\<close> tries to: it
  looks the pair's job id up and removes what it finds. But the backend does not keep a
  repeated job under that id, so the lookup finds nothing and nothing is removed. When the
  parent's preferences changed between the two installs, the second install records a
  second repeat configuration under another key: the pair has two triggers, the old
  schedule and the new one.
\<close>

theorem reinstall_leaves_two_triggers:
  "snd (scheduleDailySmsForPair (bullWith h n) (findWith examplePrefs) (lit ''p1'') (lit ''c1'') emptyQueue)
     = Inr ()
   \<and> getJob (fst (scheduleDailySmsForPair (bullWith h n) (findWith examplePrefs) (lit ''p1'') (lit ''c1'') emptyQueue))
        (smsJobId (lit ''p1'') (lit ''c1'')) = None
   \<and> snd (scheduleDailySmsForPair (bullWith h n) (findWith laterPrefs) (lit ''p1'') (lit ''c1'')
        (fst (scheduleDailySmsForPair (bullWith h n) (findWith examplePrefs) (lit ''p1'') (lit ''c1'') emptyQueue)))
     = Inr ()
   \<and> map rep_cron (triggersFor (lit ''p1'') (lit ''c1'')
        (fst (scheduleDailySmsForPair (bullWith h n) (findWith laterPrefs) (lit ''p1'') (lit ''c1'')
           (fst (scheduleDailySmsForPair (bullWith h n) (findWith examplePrefs) (lit ''p1'') (lit ''c1'') emptyQueue)))))
     = [lit ''00 15 * * 1-5'', lit ''30 16 * * 1,3'']
   \<and> length (triggersFor (lit ''p1'') (lit ''c1'')
        (fst (scheduleDailySmsForPair (bullWith h n) (findWith laterPrefs) (lit ''p1'') (lit ''c1'')
           (fst (scheduleDailySmsForPair (bullWith h n) (findWith examplePrefs) (lit ''p1'') (lit ''c1'') emptyQueue)))))
     = 2"
  unfolding first_install fst_conv snd_conv
  by (simp add: eval_schedule smsJobId_def repeat_id_head)

section \<open>Properties: the worker\<close>

subsection \<open>The paths through one run\<close>

lemma sendToParent_fail: "sendToParent w p c pr st = (st', Inl e) \<Longrightarrow> st' = st"
  by (auto simp: sendToParent_def logMessage_def Let_def split: option.splits if_splits sum.splits)

lemma sendToChild_fail: "sendToChild w p c pr st = (st', Inl e) \<Longrightarrow> st' = st"
  by (auto simp: sendToChild_def logMessage_def Let_def split: option.splits if_splits sum.splits)

lemma sendToParent_ok:
  "sendToParent w p c pr st = (st', Inr u) \<Longrightarrow>
     (case parent_phoneNumber (parent_of pr) of
        None \<Rightarrow> st' = st
      | Some phone \<Rightarrow>
          if phone = [] then st' = st
          else \<exists>sid. sendSms (twilioService w) phone (msg pr) = Inr sid
                 \<and> st' = st @ [sentRecord p c pr phone parent sid])"
  by (auto simp: sendToParent_def logMessage_def sentRecord_def Let_def
           split: option.splits if_splits sum.splits)

lemma sendToChild_ok:
  "sendToChild w p c pr st = (st', Inr u) \<Longrightarrow>
     (case child_phoneNumber (child_of pr) of
        None \<Rightarrow> st' = st
      | Some phone \<Rightarrow>
          if \<not> childIncluded pr then st' = st
          else \<exists>sid. sendSms (twilioService w) phone (msg pr) = Inr sid
                 \<and> st' = st @ [sentRecord p c pr phone child sid])"
  by (auto simp: sendToChild_def logMessage_def sentRecord_def Let_def
           split: option.splits if_splits sum.splits)

lemma status_sentRecord [simp]:
  "status (sentRecord p c pr phone role sid) = sent"
  "recipientPhone (sentRecord p c pr phone role sid) = phone"
  "recipientType (sentRecord p c pr phone role sid) = role"
  by (simp_all add: sentRecord_def messageData_def)

lemma status_failedRecord [simp]:
  "status (failedRecord p c phone) = failed"
  "recipientPhone (failedRecord p c phone) = phone"
  "recipientType (failedRecord p c phone) = parent"
  by (simp_all add: failedRecord_def messageData_def)

lemma recordsFor_append [simp]:
  "recordsFor s ph role (xs @ ys) = recordsFor s ph role xs @ recordsFor s ph role ys"
  by (simp add: recordsFor_def)

lemma recordsFor_Cons:
  "recordsFor s ph role (r # rs) =
     (if status r = s \<and> recipientPhone r = ph \<and> recipientType r = role
      then r # recordsFor s ph role rs else recordsFor s ph role rs)"
  by (simp add: recordsFor_def)

lemma recordsFor_Nil [simp]: "recordsFor s ph role [] = []"
  by (simp add: recordsFor_def)

text \<open>The failure handler adds nothing or one failed row; never a sent row.\<close>

lemma catchBlock_cases:
  "catchBlock w p c st = st \<or> (\<exists>phone. catchBlock w p c st = st @ [failedRecord p c phone])"
  by (auto simp: catchBlock_def logMessage_def failedRecord_def Let_def
           split: sum.splits option.splits)

lemma catchBlock_logs:
  "findParentOnFailure w p = Inr (Some pa) \<Longrightarrow> parent_phoneNumber pa = Some phone \<Longrightarrow>
   phone \<noteq> [] \<Longrightarrow> createMessage w (failedRecord p c phone) = None \<Longrightarrow>
   catchBlock w p c st = st @ [failedRecord p c phone]"
  by (simp add: catchBlock_def logMessage_def failedRecord_def Let_def)

lemma catchBlock_sent: "recordsFor sent ph role (catchBlock w p c st) = recordsFor sent ph role st"
  using catchBlock_cases[of w p c st] by (auto simp: recordsFor_Cons)

text \<open>The try block appends sent rows only.\<close>

lemma tryBlock_failed_rows:
  "tryBlock w p c st = (st', res) \<Longrightarrow> recordsFor failed ph role st' = recordsFor failed ph role st"
  by (auto simp: tryBlock_def recordsFor_Cons split: sum.splits prod.splits option.splits if_splits
           dest!: sendToParent_fail sendToChild_fail sendToParent_ok sendToChild_ok)

text \<open>A run that returns has logged one sent row for each recipient it resolved.\<close>

lemma success_one_sent_each:
  assumes run: "processSmsJob w p c st = (st', Inr r)"
    and prep: "prepare w p c = Inr pr"
    and rcp: "(ph, role) \<in> set (recipients pr)"
  shows "length (recordsFor sent ph role st') = length (recordsFor sent ph role st) + 1"
proof -
  from run prep obtain st1 u1 u2 where
    sp: "sendToParent w p c pr st = (st1, Inr u1)" and
    sc: "sendToChild w p c pr st1 = (st', Inr u2)"
    by (auto simp: processSmsJob_def tryBlock_def split: sum.splits prod.splits)
  show ?thesis
    using sendToParent_ok[OF sp] sendToChild_ok[OF sc] rcp
    by (auto simp: recipients_def recordsFor_Cons split: option.splits if_splits)
qed

lemma runFiring_retry_once:
  "processSmsJob w1 p c st = (st1, Inl e) \<Longrightarrow> processSmsJob w2 p c st1 = (st2, Inr r) \<Longrightarrow>
   runFiring (w1 # w2 # ws) p c st = (st2, completed r)"
  by (simp add: runFiring_def attempts_def numeral_3_eq_3)

lemma runFiring_exhausted:
  "processSmsJob w1 p c st = (st1, Inl e1) \<Longrightarrow> processSmsJob w2 p c st1 = (st2, Inl e2) \<Longrightarrow>
   processSmsJob w3 p c st2 = (st3, Inl e3) \<Longrightarrow>
   runFiring (w1 # w2 # w3 # ws) p c st = (st3, failedTerminal e3)"
  by (simp add: runFiring_def attempts_def numeral_3_eq_3)

lemma prepare_fail_run:
  "prepare w p c = Inl e \<Longrightarrow> processSmsJob w p c st = (catchBlock w p c st, Inl e)"
  by (simp add: processSmsJob_def tryBlock_def)

lemma sendSms_invalid: "\<not> validatePhoneNumber phone \<Longrightarrow> isl (sendSms tw phone body)"
  by (auto simp: sendSms_def Let_def split: option.splits sum.splits)

lemma sendSms_ok:
  "initializeTwilioClient tw = None \<Longrightarrow> fromPhoneNumber tw = Some from \<Longrightarrow> from \<noteq> [] \<Longrightarrow>
   validatePhoneNumber phone \<Longrightarrow> messagesCreate tw body from phone = Inr (Some sid) \<Longrightarrow>
   sid \<noteq> [] \<Longrightarrow> sendSms tw phone body = Inr sid"
  by (simp add: sendSms_def)

lemma sendSms_provider_error:
  "initializeTwilioClient tw = None \<Longrightarrow> fromPhoneNumber tw = Some from \<Longrightarrow> from \<noteq> [] \<Longrightarrow>
   validatePhoneNumber phone \<Longrightarrow> messagesCreate tw body from phone = Inl e \<Longrightarrow>
   sendSms tw phone body = Inl (Error (lit ''Failed to send SMS: '' @ message_of e))"
  by (simp add: sendSms_def)


lemma sendToParent_sends:
  "parent_phoneNumber (parent_of pr) = Some ph \<Longrightarrow> ph \<noteq> [] \<Longrightarrow>
   sendSms (twilioService w) ph (msg pr) = Inr sid \<Longrightarrow>
   createMessage w (sentRecord p c pr ph parent sid) = None \<Longrightarrow>
   sendToParent w p c pr st = (st @ [sentRecord p c pr ph parent sid], Inr ())"
  by (simp add: sendToParent_def logMessage_def sentRecord_def Let_def)

lemma sendToChild_send_fails:
  "child_phoneNumber (child_of pr) = Some ph \<Longrightarrow> childIncluded pr \<Longrightarrow>
   sendSms (twilioService w) ph (msg pr) = Inl e \<Longrightarrow>
   sendToChild w p c pr st = (st, Inl e)"
  by (simp add: sendToChild_def)

lemma sendToChild_sends:
  "child_phoneNumber (child_of pr) = Some ph \<Longrightarrow> childIncluded pr \<Longrightarrow>
   sendSms (twilioService w) ph (msg pr) = Inr sid \<Longrightarrow>
   createMessage w (sentRecord p c pr ph child sid) = None \<Longrightarrow>
   sendToChild w p c pr st = (st @ [sentRecord p c pr ph child sid], Inr ())"
  by (simp add: sendToChild_def logMessage_def sentRecord_def Let_def)


lemma run_child_send_fails:
  "prepare w p c = Inr pr \<Longrightarrow> sendToParent w p c pr st = (st1, Inr u) \<Longrightarrow>
   sendToChild w p c pr st1 = (st1, Inl e) \<Longrightarrow>
   processSmsJob w p c st = (catchBlock w p c st1, Inl e)"
  by (simp add: processSmsJob_def tryBlock_def)

lemma run_succeeds:
  "prepare w p c = Inr pr \<Longrightarrow> sendToParent w p c pr st = (st1, Inr u) \<Longrightarrow>
   sendToChild w p c pr st1 = (st2, Inr u') \<Longrightarrow>
   processSmsJob w p c st =
     (st2, Inr \<lparr> success = True, res_assignmentCount = length (todos pr),
                 messageLength = length (msg pr), smsSegments = segments (validation_of pr) \<rparr>)"
  by (simp add: processSmsJob_def tryBlock_def)

lemma failed_run_logs_one:
  assumes run: "processSmsJob w p c st = (st', Inl e)"
    and h: "findParentOnFailure w p = Inr (Some pa)" "parent_phoneNumber pa = Some phone" "phone \<noteq> []"
    and db: "createMessage w (failedRecord p c phone) = None"
  shows "length (recordsFor failed phone parent st') = length (recordsFor failed phone parent st) + 1"
proof -
  from run obtain st1 where t: "tryBlock w p c st = (st1, Inl e)" and c: "st' = catchBlock w p c st1"
    by (auto simp: processSmsJob_def split: prod.splits sum.splits)
  have "st' = st1 @ [failedRecord p c phone]"
    using c catchBlock_logs[OF h db] by simp
  then show ?thesis
    using tryBlock_failed_rows[OF t, of phone parent] by (simp add: recordsFor_Cons)
qed

lemma success_no_failed:
  assumes "processSmsJob w p c st = (st', Inr r)"
  shows "recordsFor failed ph role st' = recordsFor failed ph role st"
proof -
  from assms have "tryBlock w p c st = (st', Inr r)"
    by (auto simp: processSmsJob_def split: prod.splits sum.splits)
  then show ?thesis by (rule tryBlock_failed_rows)
qed

subsection \<open>The example worlds\<close>

lemma prepare_no_items:
  "fetchTodoItems w c = Inr [] \<Longrightarrow> clock w = exampleDate \<Longrightarrow>
   findParent w p = Inr (Some pa) \<Longrightarrow> findChild w c = Inr (Some ch) \<Longrightarrow>
   findPreference w p = Inr prefs \<Longrightarrow>
   prepare w p c = Inr (examplePrepared \<lparr> parent_of := pa, child_of := ch, preferences_of := prefs \<rparr>)"
  by (simp add: prepare_def examplePrepared_def validateMessageDefault_def validateMessage_def
        countSmsSegments_def hasUnicode_def trim_def isWhiteSpace_def eval_format)

lemma valid_parentPhone: "validatePhoneNumber parentPhone"
  by (simp add: validatePhoneNumber_def parentPhone_def isDigit_def lit_def)

lemma valid_childPhone: "validatePhoneNumber childPhone"
  by (simp add: validatePhoneNumber_def childPhone_def isDigit_def lit_def)


lemma phones_differ: "parentPhone \<noteq> childPhone" "childPhone \<noteq> parentPhone"
  by (simp_all add: parentPhone_def childPhone_def lit_def)

lemma phones_nonempty: "parentPhone \<noteq> []" "childPhone \<noteq> []" "lit ''SM1'' \<noteq> []"
  "lit ''555-1234'' \<noteq> []" "lit ''555-4321'' \<noteq> []"
  by (simp_all add: parentPhone_def childPhone_def lit_def)

lemma exampleParent_phone: "parent_phoneNumber exampleParent = Some parentPhone"
  by (simp add: exampleParent_def parentPhone_def)

lemma sendSms_okTwilio:
  "validatePhoneNumber phone \<Longrightarrow> sendSms okTwilio phone body = Inr (lit ''SM1'')"
  by (rule sendSms_ok[of _ "lit ''+15550000000''"]) (simp_all add: okTwilio_def lit_def)

lemma examplePrepared_fields:
  "parent_of examplePrepared = exampleParent"
  "child_phoneNumber (child_of examplePrepared) = Some childPhone"
  "childIncluded examplePrepared"
  "todos examplePrepared = []"
  "length (msg examplePrepared) = 49"
  "segments (validation_of examplePrepared) = 1"
  by (simp_all add: examplePrepared_def exampleChild_def childIncluded_def examplePrefs_def
        phones_nonempty length_lit)

lemma prepare_okWorld: "prepare okWorld p c = Inr examplePrepared"
  using prepare_no_items[of okWorld c p exampleParent exampleChild "Some examplePrefs"]
  by (simp add: okWorld_def examplePrepared_def)

lemma run_okWorld:
  "processSmsJob okWorld p c st =
     (st @ [sentRecord p c examplePrepared parentPhone parent (lit ''SM1''),
            sentRecord p c examplePrepared childPhone child (lit ''SM1'')],
      Inr \<lparr> success = True, res_assignmentCount = 0, messageLength = 49, smsSegments = 1 \<rparr>)"
proof -
  have tw: "twilioService okWorld = okTwilio" and db: "createMessage okWorld = (\<lambda>row. None)"
    by (simp_all add: okWorld_def)
  have sp: "sendToParent okWorld p c examplePrepared st
              = (st @ [sentRecord p c examplePrepared parentPhone parent (lit ''SM1'')], Inr ())"
    by (rule sendToParent_sends)
       (simp_all add: examplePrepared_fields exampleParent_phone phones_nonempty tw db
          sendSms_okTwilio valid_parentPhone)
  have sc: "sendToChild okWorld p c examplePrepared
              (st @ [sentRecord p c examplePrepared parentPhone parent (lit ''SM1'')])
              = ((st @ [sentRecord p c examplePrepared parentPhone parent (lit ''SM1'')])
                   @ [sentRecord p c examplePrepared childPhone child (lit ''SM1'')], Inr ())"
    by (rule sendToChild_sends)
       (simp_all add: examplePrepared_fields tw db sendSms_okTwilio valid_childPhone)
  show ?thesis
    using run_succeeds[OF prepare_okWorld sp sc] by (simp add: examplePrepared_fields)
qed

lemma catch_exampleParent:
  "findParentOnFailure w p = Inr (Some exampleParent) \<Longrightarrow> createMessage w = (\<lambda>row. None) \<Longrightarrow>
   catchBlock w p c st = st @ [failedRecord p c parentPhone]"
  by (rule catchBlock_logs[where pa = exampleParent])
     (simp_all add: exampleParent_phone phones_nonempty)

lemma fetch_fail_prepare: "fetchTodoItems w c = Inl e \<Longrightarrow> prepare w p c = Inl e"
  by (simp add: prepare_def)

lemma run_fetchFails:
  "processSmsJob (fetchFails reason) p c st = (st @ [failedRecord p c parentPhone], Inl (Error reason))"
proof -
  have "prepare (fetchFails reason) p c = Inl (Error reason)"
    by (rule fetch_fail_prepare) (simp add: fetchFails_def)
  then have "processSmsJob (fetchFails reason) p c st
               = (catchBlock (fetchFails reason) p c st, Inl (Error reason))"
    by (rule prepare_fail_run)
  moreover have "catchBlock (fetchFails reason) p c st = st @ [failedRecord p c parentPhone]"
    by (rule catch_exampleParent) (simp_all add: fetchFails_def okWorld_def)
  ultimately show ?thesis by simp
qed

lemma run_childSendFails:
  "processSmsJob childSendFails p c st =
     (st @ [sentRecord p c examplePrepared parentPhone parent (lit ''SM1''),
            failedRecord p c parentPhone],
      Inl (Error (lit ''Failed to send SMS: '' @ lit ''connect ETIMEDOUT'')))"
proof -
  let ?tw = "twilioService childSendFails"
  have tw: "initializeTwilioClient ?tw = None" "fromPhoneNumber ?tw = Some (lit ''+15550000000'')"
    "messagesCreate ?tw = (\<lambda>body from to. if to = childPhone then Inl (Error (lit ''connect ETIMEDOUT''))
                         else Inr (Some (lit ''SM1'')))"
    and db: "createMessage childSendFails = (\<lambda>row. None)"
    and h: "findParentOnFailure childSendFails p = Inr (Some exampleParent)"
    by (simp_all add: childSendFails_def okWorld_def okTwilio_def)
  have ne: "lit ''+15550000000'' \<noteq> []" by (simp add: lit_def)
  have prep: "prepare childSendFails p c = Inr examplePrepared"
    using prepare_no_items[of childSendFails c p exampleParent exampleChild "Some examplePrefs"]
    by (simp add: childSendFails_def okWorld_def examplePrepared_def)
  have s1: "sendSms ?tw parentPhone (msg examplePrepared) = Inr (lit ''SM1'')"
    by (rule sendSms_ok[OF tw(1) tw(2) ne valid_parentPhone]) (simp_all add: tw(3) phones_differ phones_nonempty)
  have s2: "sendSms ?tw childPhone (msg examplePrepared)
              = Inl (Error (lit ''Failed to send SMS: '' @ message_of (Error (lit ''connect ETIMEDOUT''))))"
    by (rule sendSms_provider_error[OF tw(1) tw(2) ne valid_childPhone]) (simp add: tw(3))
  have sp: "sendToParent childSendFails p c examplePrepared st
              = (st @ [sentRecord p c examplePrepared parentPhone parent (lit ''SM1'')], Inr ())"
    by (rule sendToParent_sends)
       (simp_all add: examplePrepared_fields exampleParent_phone phones_nonempty s1 db)
  have sc: "sendToChild childSendFails p c examplePrepared
              (st @ [sentRecord p c examplePrepared parentPhone parent (lit ''SM1'')])
              = (st @ [sentRecord p c examplePrepared parentPhone parent (lit ''SM1'')],
                 Inl (Error (lit ''Failed to send SMS: '' @ lit ''connect ETIMEDOUT'')))"
    using sendToChild_send_fails[OF examplePrepared_fields(2,3) s2] by simp
  show ?thesis
    using run_child_send_fails[OF prep sp sc] catch_exampleParent[OF h db] by simp
qed

lemma recipients_examplePrepared:
  "recipients examplePrepared = [(parentPhone, parent), (childPhone, child)]"
  by (simp add: recipients_def examplePrepared_fields exampleParent_phone phones_nonempty)

subsection \<open>Retries and the message table\<close>

text \<open>
  C2, as the claim states it, fails. In the first run the send to the parent succeeds and
  is logged, then the provider fails for the child's number; the run throws and the queue
  runs the job again. The second run succeeds and sends to the parent again: the table
  holds two sent records for the parent.
\<close>

theorem retry_duplicates_recorded_send:
  "length (recordsFor sent parentPhone parent
     (fst (runFiring [childSendFails, okWorld] (lit ''p1'') (lit ''c1'') []))) = 2
   \<and> snd (runFiring [childSendFails, okWorld] (lit ''p1'') (lit ''c1'') [])
       = completed \<lparr> success = True, res_assignmentCount = 0, messageLength = 49, smsSegments = 1 \<rparr>"
proof -
  have "runFiring [childSendFails, okWorld] (lit ''p1'') (lit ''c1'') []
          = (([] @ [sentRecord (lit ''p1'') (lit ''c1'') examplePrepared parentPhone parent (lit ''SM1''),
                    failedRecord (lit ''p1'') (lit ''c1'') parentPhone])
               @ [sentRecord (lit ''p1'') (lit ''c1'') examplePrepared parentPhone parent (lit ''SM1''),
                  sentRecord (lit ''p1'') (lit ''c1'') examplePrepared childPhone child (lit ''SM1'')],
             completed \<lparr> success = True, res_assignmentCount = 0, messageLength = 49, smsSegments = 1 \<rparr>)"
    by (rule runFiring_retry_once[OF run_childSendFails run_okWorld])
  then show ?thesis
    by (simp add: recordsFor_Cons)
qed

text \<open>
  C2, amended. When the failed first run has recorded no send (it failed in the fetch, in
  formatting or validation, in a lookup, or in the parent's own send) and the second run
  succeeds, the firing completes and the table holds exactly one more sent record for
  each recipient the second run resolved. The failed run leaves its failed record for
  the parent beside them, when its failure handler finds the parent with a phone number
  and the insert succeeds.
\<close>

theorem retry_without_recorded_send:
  assumes "processSmsJob w1 p c st = (st1, Inl e)"
    and "\<forall>ph role. recordsFor sent ph role st1 = recordsFor sent ph role st"
    and "processSmsJob w2 p c st1 = (st2, Inr r)"
    and "prepare w2 p c = Inr pr"
  shows "runFiring [w1, w2] p c st = (st2, completed r)
         \<and> (\<forall>(ph, role) \<in> set (recipients pr).
               length (recordsFor sent ph role st2) = length (recordsFor sent ph role st) + 1)
         \<and> (findParentOnFailure w1 p = Inr (Some pa) \<and> parent_phoneNumber pa = Some phone
              \<and> phone \<noteq> [] \<and> createMessage w1 (failedRecord p c phone) = None \<longrightarrow>
            length (recordsFor failed phone parent st2)
              = length (recordsFor failed phone parent st) + 1)"
proof -
  have run: "runFiring [w1, w2] p c st = (st2, completed r)"
    using assms(1,3) by (rule runFiring_retry_once)
  have each: "length (recordsFor sent ph role st2) = length (recordsFor sent ph role st) + 1"
    if "(ph, role) \<in> set (recipients pr)" for ph role
    using success_one_sent_each[OF assms(3,4) that] assms(2) by simp
  have logged: "length (recordsFor failed phone parent st2)
                  = length (recordsFor failed phone parent st) + 1"
    if "findParentOnFailure w1 p = Inr (Some pa)" "parent_phoneNumber pa = Some phone"
       "phone \<noteq> []" "createMessage w1 (failedRecord p c phone) = None"
    using failed_run_logs_one[OF assms(1) that] success_no_failed[OF assms(3), of phone parent]
    by simp
  show ?thesis using run each logged by auto
qed

theorem retry_without_recorded_send_witness:
  "runFiring [fetchFails (lit ''Canvas API error: Network Error''), okWorld] (lit ''p1'') (lit ''c1'') []
     = ([failedRecord (lit ''p1'') (lit ''c1'') parentPhone,
         sentRecord (lit ''p1'') (lit ''c1'') examplePrepared parentPhone parent (lit ''SM1''),
         sentRecord (lit ''p1'') (lit ''c1'') examplePrepared childPhone child (lit ''SM1'')],
        completed \<lparr> success = True, res_assignmentCount = 0, messageLength = 49, smsSegments = 1 \<rparr>)
   \<and> length (recordsFor sent parentPhone parent
        [failedRecord (lit ''p1'') (lit ''c1'') parentPhone,
         sentRecord (lit ''p1'') (lit ''c1'') examplePrepared parentPhone parent (lit ''SM1''),
         sentRecord (lit ''p1'') (lit ''c1'') examplePrepared childPhone child (lit ''SM1'')]) = 1
   \<and> length (recordsFor sent childPhone child
        [failedRecord (lit ''p1'') (lit ''c1'') parentPhone,
         sentRecord (lit ''p1'') (lit ''c1'') examplePrepared parentPhone parent (lit ''SM1''),
         sentRecord (lit ''p1'') (lit ''c1'') examplePrepared childPhone child (lit ''SM1'')]) = 1"
proof -
  let ?w1 = "fetchFails (lit ''Canvas API error: Network Error'')"
  let ?st1 = "[] @ [failedRecord (lit ''p1'') (lit ''c1'') parentPhone]"
  have a1: "processSmsJob ?w1 (lit ''p1'') (lit ''c1'') []
              = (?st1, Inl (Error (lit ''Canvas API error: Network Error'')))"
    by (rule run_fetchFails)
  have a2: "\<forall>ph role. recordsFor sent ph role ?st1 = recordsFor sent ph role []"
    by (simp add: recordsFor_Cons)
  note a3 = run_okWorld[of "lit ''p1''" "lit ''c1''" ?st1]
  note a4 = prepare_okWorld[of "lit ''p1''" "lit ''c1''"]
  show ?thesis
    using retry_without_recorded_send[OF a1 a2 a3 a4] recipients_examplePrepared by simp
qed

text \<open>
  C3, as the claim states it, fails: three runs that fail in the fetch leave three failed
  records for the parent, one per run, not one.
\<close>

theorem three_failures_three_failed_records:
  "length (recordsFor failed parentPhone parent
     (fst (runFiring [fetchFails (lit ''Canvas API error: Request failed with status code 429''),
                      fetchFails (lit ''Canvas API error: Request failed with status code 429''),
                      fetchFails (lit ''Canvas API error: Request failed with status code 429'')]
             (lit ''p1'') (lit ''c1'') []))) = 3
   \<and> snd (runFiring [fetchFails (lit ''Canvas API error: Request failed with status code 429''),
                      fetchFails (lit ''Canvas API error: Request failed with status code 429''),
                      fetchFails (lit ''Canvas API error: Request failed with status code 429'')]
             (lit ''p1'') (lit ''c1'') [])
       = failedTerminal (Error (lit ''Canvas API error: Request failed with status code 429''))"
proof -
  let ?w = "fetchFails (lit ''Canvas API error: Request failed with status code 429'')"
  have "runFiring [?w, ?w, ?w] (lit ''p1'') (lit ''c1'') []
          = ((([] @ [failedRecord (lit ''p1'') (lit ''c1'') parentPhone])
                @ [failedRecord (lit ''p1'') (lit ''c1'') parentPhone])
               @ [failedRecord (lit ''p1'') (lit ''c1'') parentPhone],
             failedTerminal (Error (lit ''Canvas API error: Request failed with status code 429'')))"
    by (rule runFiring_exhausted[OF run_fetchFails run_fetchFails run_fetchFails])
  then show ?thesis
    by (simp add: recordsFor_Cons)
qed

text \<open>
  C3, amended. Every run that throws passes through the failure handler, which logs one
  failed record for the parent when it finds the parent with a phone number and the
  insert succeeds. A firing whose three runs all throw ends as failed and has added
  exactly three failed records for the parent, one per run.
\<close>

theorem each_failed_attempt_logs_failed:
  assumes "processSmsJob w1 p c st = (st1, Inl e1)"
    and "processSmsJob w2 p c st1 = (st2, Inl e2)"
    and "processSmsJob w3 p c st2 = (st3, Inl e3)"
    and "findParentOnFailure w1 p = Inr (Some pa1)" "parent_phoneNumber pa1 = Some phone"
    and "findParentOnFailure w2 p = Inr (Some pa2)" "parent_phoneNumber pa2 = Some phone"
    and "findParentOnFailure w3 p = Inr (Some pa3)" "parent_phoneNumber pa3 = Some phone"
    and "phone \<noteq> []"
    and "createMessage w1 (failedRecord p c phone) = None"
    and "createMessage w2 (failedRecord p c phone) = None"
    and "createMessage w3 (failedRecord p c phone) = None"
  shows "runFiring [w1, w2, w3] p c st = (st3, failedTerminal e3)
         \<and> length (recordsFor failed phone parent st1) = length (recordsFor failed phone parent st) + 1
         \<and> length (recordsFor failed phone parent st2) = length (recordsFor failed phone parent st) + 2
         \<and> length (recordsFor failed phone parent st3) = length (recordsFor failed phone parent st) + 3"
proof -
  have run: "runFiring [w1, w2, w3] p c st = (st3, failedTerminal e3)"
    using assms(1,2,3) by (rule runFiring_exhausted)
  have l1: "length (recordsFor failed phone parent st1) = length (recordsFor failed phone parent st) + 1"
    using assms(1,4,5,10,11) by (rule failed_run_logs_one)
  have l2: "length (recordsFor failed phone parent st2) = length (recordsFor failed phone parent st1) + 1"
    using assms(2,6,7,10,12) by (rule failed_run_logs_one)
  have l3: "length (recordsFor failed phone parent st3) = length (recordsFor failed phone parent st2) + 1"
    using assms(3,8,9,10,13) by (rule failed_run_logs_one)
  show ?thesis using run l1 l2 l3 by simp
qed

theorem each_failed_attempt_logs_failed_witness:
  "runFiring [fetchFails (lit ''Canvas API error: Network Error''), childSendFails,
              fetchFails (lit ''Canvas API error: Request failed with status code 429'')]
       (lit ''p1'') (lit ''c1'') []
     = ([failedRecord (lit ''p1'') (lit ''c1'') parentPhone,
         sentRecord (lit ''p1'') (lit ''c1'') examplePrepared parentPhone parent (lit ''SM1''),
         failedRecord (lit ''p1'') (lit ''c1'') parentPhone,
         failedRecord (lit ''p1'') (lit ''c1'') parentPhone],
        failedTerminal (Error (lit ''Canvas API error: Request failed with status code 429'')))
   \<and> length (recordsFor failed parentPhone parent
        [failedRecord (lit ''p1'') (lit ''c1'') parentPhone,
         sentRecord (lit ''p1'') (lit ''c1'') examplePrepared parentPhone parent (lit ''SM1''),
         failedRecord (lit ''p1'') (lit ''c1'') parentPhone,
         failedRecord (lit ''p1'') (lit ''c1'') parentPhone]) = 3"
proof -
  let ?w1 = "fetchFails (lit ''Canvas API error: Network Error'')"
  let ?w3 = "fetchFails (lit ''Canvas API error: Request failed with status code 429'')"
  note a1 = run_fetchFails[of "lit ''Canvas API error: Network Error''" "lit ''p1''" "lit ''c1''" "[]"]
  note a2 = run_childSendFails[of "lit ''p1''" "lit ''c1''" "[] @ [failedRecord (lit ''p1'') (lit ''c1'') parentPhone]"]
  note a3 = run_fetchFails[of "lit ''Canvas API error: Request failed with status code 429''" "lit ''p1''" "lit ''c1''"
      "([] @ [failedRecord (lit ''p1'') (lit ''c1'') parentPhone]) @
        [sentRecord (lit ''p1'') (lit ''c1'') examplePrepared parentPhone parent (lit ''SM1''),
         failedRecord (lit ''p1'') (lit ''c1'') parentPhone]"]
  have h1: "findParentOnFailure ?w1 (lit ''p1'') = Inr (Some exampleParent)"
    and h2: "findParentOnFailure childSendFails (lit ''p1'') = Inr (Some exampleParent)"
    and h3: "findParentOnFailure ?w3 (lit ''p1'') = Inr (Some exampleParent)"
    and d1: "createMessage ?w1 (failedRecord (lit ''p1'') (lit ''c1'') parentPhone) = None"
    and d2: "createMessage childSendFails (failedRecord (lit ''p1'') (lit ''c1'') parentPhone) = None"
    and d3: "createMessage ?w3 (failedRecord (lit ''p1'') (lit ''c1'') parentPhone) = None"
    by (simp_all add: fetchFails_def childSendFails_def okWorld_def)
  show ?thesis
    using each_failed_attempt_logs_failed[OF a1 a2 a3 h1 exampleParent_phone h2 exampleParent_phone
        h3 exampleParent_phone phones_nonempty(1) d1 d2 d3]
    by simp
qed

subsection \<open>A recipient whose address is rejected\<close>















end
